theory Spec2Isabelle
  imports Complex_Main "HOL-Library.Multiset"
begin

section \<open>Company name duplicate finder (Finder.py)\<close>

text \<open>
  The script reads a table, takes the column \<^verbatim>\<open>Company Name\<close>, drops the missing cells,
  collapses equal names, scores every pair of the remaining names with \<^verbatim>\<open>fuzz.ratio\<close>,
  keeps the pairs whose score reaches the slider's threshold, sorts them by score and
  shows three statistics. The model starts at the parsed column: a cell is
  \<open>Some text\<close>, or \<open>None\<close> for a missing value (the reader's NaN, which is also what
  an empty field of the file becomes). Scores and thresholds are Python numbers and are
  embedded in \<open>real\<close>; the mean is the exact quotient.

  Only the values the script computes are modelled: the candidates, the compared pairs,
  the table \<^verbatim>\<open>results_df\<close> and the three statistics. The calls that put them on the
  page (lines 57-86) are not: they can raise, and then the handler of lines 102-103
  reports the failure and the statistics of lines 89-96 are never reached.
\<close>

subsection \<open>Data\<close>

type_synonym series = "string option list"

text \<open>One row of \<^verbatim>\<open>duplicates\<close>: the dictionary appended at lines 46-50.\<close>

record match =
  name1 :: string
  name2 :: string
  similarity :: real

text \<open>The three metrics of lines 89-96.\<close>

record summary =
  total_pairs :: nat
  avg_similarity :: "real option"
  high_confidence :: nat

text \<open>
  What the scan computes: either no pair reached the threshold (the branch of lines
  98-100), or the table with its statistics (the branch of lines 53-96).
\<close>

datatype outcome =
    NoDuplicates
  | Found "match list" summary

subsection \<open>The slider (line 15)\<close>

text \<open>\<^verbatim>\<open>st.slider(min_value=50, max_value=100, value=80, step=5)\<close>: the values a user can pick.\<close>

definition slider_values :: "real list" where
  "slider_values = map (\<lambda>k. 50 + 5 * real k) [0..<11]"

subsection \<open>Candidates (line 35)\<close>

text \<open>\<^verbatim>\<open>Series.dropna()\<close>: the cells that are not missing, in order.\<close>

fun dropna :: "'a option list \<Rightarrow> 'a list" where
  "dropna [] = []"
| "dropna (None # cs) = dropna cs"
| "dropna (Some v # cs) = v # dropna cs"

text \<open>
  \<^verbatim>\<open>Series.unique()\<close>: one pass with a table of the values seen so far; a value is
  emitted the first time it is met.
\<close>

fun unique_from :: "'a list \<Rightarrow> 'a list \<Rightarrow> 'a list" where
  "unique_from seen [] = []"
| "unique_from seen (x # xs) =
     (if x \<in> set seen then unique_from seen xs else x # unique_from (x # seen) xs)"

definition unique :: "'a list \<Rightarrow> 'a list" where
  "unique xs = unique_from [] xs"

definition company_names :: "series \<Rightarrow> string list" where
  "company_names column = unique (dropna column)"

subsection \<open>Pair enumeration and the scan (lines 40-50)\<close>

text \<open>\<^verbatim>\<open>itertools.combinations(xs, 2)\<close>: pairs of positions \<open>i < j\<close>, in lexicographic order.\<close>

fun combinations2 :: "'a list \<Rightarrow> ('a \<times> 'a) list" where
  "combinations2 [] = []"
| "combinations2 (x # xs) = map (Pair x) xs @ combinations2 xs"

text \<open>The pairs the loop of line 43 iterates over; each iteration calls the scorer once.\<close>

definition compared_pairs :: "series \<Rightarrow> (string \<times> string) list" where
  "compared_pairs column = combinations2 (company_names column)"

text \<open>
  The loop body, with the list \<^verbatim>\<open>duplicates\<close> threaded through. The scorer
  \<^verbatim>\<open>fuzz.ratio\<close> is library code and is a parameter here.
\<close>

fun find_duplicates ::
  "(string \<Rightarrow> string \<Rightarrow> real) \<Rightarrow> real \<Rightarrow> (string \<times> string) list \<Rightarrow> match list \<Rightarrow> match list"
where
  "find_duplicates ratio threshold [] duplicates = duplicates"
| "find_duplicates ratio threshold ((n1, n2) # rest) duplicates =
     (let sim = ratio n1 n2 in
      if sim \<ge> threshold
      then find_duplicates ratio threshold rest
             (duplicates @ [\<lparr>name1 = n1, name2 = n2, similarity = sim\<rparr>])
      else find_duplicates ratio threshold rest duplicates)"

subsection \<open>Ranking and statistics (lines 53-100)\<close>

text \<open>
  \<^verbatim>\<open>sort_values('Similarity Score', ascending=False)\<close>: the rows ordered by score,
  largest first. The library's routine is not part of the script; it is embedded as an
  insertion sort on the negated score. The script asks for no sorting kind, and the
  library's default one need not keep rows of equal score in their former order: the
  order the insertion sort gives to such rows is one of the possible ones, and no
  statement below is about it.
\<close>

definition sort_values :: "match list \<Rightarrow> match list" where
  "sort_values rows = sort_key (\<lambda>m. - similarity m) rows"

text \<open>\<^verbatim>\<open>Series.mean()\<close>: NaN (here \<open>None\<close>) on an empty series, the quotient otherwise.\<close>

definition mean :: "real list \<Rightarrow> real option" where
  "mean xs = (if xs = [] then None else Some (sum_list xs / real (length xs)))"

definition statistics :: "match list \<Rightarrow> summary" where
  "statistics results_df =
     \<lparr>total_pairs = length results_df,
      avg_similarity = mean (map similarity results_df),
      high_confidence = length (filter (\<lambda>m. similarity m \<ge> 95) results_df)\<rparr>"

text \<open>
  Lines 35-55 and 89-100: from the column and the threshold to the table and its
  statistics, as computed when the display calls in between do not raise.
\<close>

definition detect :: "(string \<Rightarrow> string \<Rightarrow> real) \<Rightarrow> series \<Rightarrow> real \<Rightarrow> outcome" where
  "detect ratio column threshold =
     (let duplicates = find_duplicates ratio threshold (compared_pairs column) [] in
      if duplicates \<noteq> []
      then (let results_df = sort_values duplicates in Found results_df (statistics results_df))
      else NoDuplicates)"

text \<open>The rows of the table: those of a \<open>Found\<close> outcome, none otherwise.\<close>

fun result_set :: "outcome \<Rightarrow> match list" where
  "result_set (Found results_df s) = results_df"
| "result_set NoDuplicates = []"

subsection \<open>Reference scorer\<close>

text \<open>
  Modelled from the spec: the scorer \<^verbatim>\<open>fuzz.ratio\<close> belongs to a library that is not part
  of the script. The specification's scorer is the minimum edit distance (insertions,
  deletions, substitutions) mapped to \<open>100 * (1 - distance / max(len a, len b, 1))\<close>.
\<close>

fun edit_distance :: "'a list \<Rightarrow> 'a list \<Rightarrow> nat" where
  "edit_distance [] ys = length ys"
| "edit_distance (x # xs) [] = Suc (length xs)"
| "edit_distance (x # xs) (y # ys) =
     min (min (edit_distance xs (y # ys) + 1) (edit_distance (x # xs) ys + 1))
         (edit_distance xs ys + (if x = y then 0 else 1))"

text \<open>
  Modelled from the spec: the similarity percentage of two strings, the formula of
  section 4.1 over the edit distance above (the library's \<^verbatim>\<open>fuzz.ratio\<close> is absent).
\<close>

definition score :: "string \<Rightarrow> string \<Rightarrow> real" where
  "score a b =
     100 * (1 - real (edit_distance a b) / real (max (max (length a) (length b)) 1))"

subsection \<open>Position of a first occurrence\<close>

fun first_index :: "'a \<Rightarrow> 'a list \<Rightarrow> nat" where
  "first_index x [] = 0"
| "first_index x (y # ys) = (if x = y then 0 else Suc (first_index x ys))"

section \<open>Properties\<close>

lemma set_dropna: "set (dropna cs) = {v. Some v \<in> set cs}"
  by (induction cs rule: dropna.induct) auto

lemma set_unique_from: "set (unique_from seen xs) = set xs - set seen"
  by (induction xs arbitrary: seen) auto

lemma distinct_unique_from: "distinct (unique_from seen xs)"
  by (induction xs arbitrary: seen) (auto simp: set_unique_from)

lemma find_duplicates_eq:
  "find_duplicates ratio threshold ps acc =
     acc @ map (\<lambda>(a, b). \<lparr>name1 = a, name2 = b, similarity = ratio a b\<rparr>)
             (filter (\<lambda>(a, b). threshold \<le> ratio a b) ps)"
  by (induction ps arbitrary: acc) (auto simp: Let_def)



lemma set_combinations2_subset:
  "(a, b) \<in> set (combinations2 xs) \<Longrightarrow> a \<in> set xs \<and> b \<in> set xs"
  by (induction xs) auto






lemma sorted_wrt_combinations2:
  "sorted_wrt P xs \<Longrightarrow> (a, b) \<in> set (combinations2 xs) \<Longrightarrow> P a b"
  by (induction xs) auto

lemma first_index_dropna:
  "a \<in> set (dropna cs) \<Longrightarrow> b \<in> set (dropna cs) \<Longrightarrow>
   first_index a (dropna cs) < first_index b (dropna cs) \<Longrightarrow>
   first_index (Some a) cs < first_index (Some b) cs"
  by (induction cs rule: dropna.induct) (auto split: if_splits)

lemma first_index_less_length: "x \<in> set xs \<Longrightarrow> first_index x xs < length xs"
  by (induction xs) auto

lemma sorted_wrt_unique_from:
  "sorted_wrt (\<lambda>a b. first_index a xs < first_index b xs) (unique_from seen xs)"
proof (induction xs arbitrary: seen)
  case Nil show ?case by simp
next
  case (Cons x xs)
  have mono: "sorted_wrt (\<lambda>a b. first_index a (x # xs) < first_index b (x # xs)) (unique_from s xs)"
    if "x \<in> set s" for s
    by (rule sorted_wrt_mono_rel [OF _ Cons.IH [of s]])
       (use that in \<open>auto simp: set_unique_from\<close>)
  show ?case
    using mono [of seen] mono [of "x # seen"] by (auto simp: set_unique_from)
qed

lemma edit_distance_sym: "edit_distance xs ys = edit_distance ys xs"
proof (induction xs ys rule: edit_distance.induct)
  case (1 ys) then show ?case by (cases ys) simp_all
next
  case (2 x xs) then show ?case by simp
next
  case (3 x xs y ys)
  then show ?case by (simp add: min.commute min.left_commute eq_commute)
qed

lemma edit_distance_refl: "edit_distance xs xs = 0"
  by (induction xs) simp_all

lemma distinct_company_names: "distinct (company_names column)"
  by (simp add: company_names_def unique_def distinct_unique_from)

lemma set_company_names: "set (company_names column) = {v. Some v \<in> set column}"
  by (simp add: company_names_def unique_def set_unique_from set_dropna)

lemma sorted_wrt_company_names:
  "sorted_wrt (\<lambda>a b. first_index (Some a) column < first_index (Some b) column)
     (company_names column)"
proof -
  have "sorted_wrt (\<lambda>a b. first_index a (dropna column) < first_index b (dropna column))
          (company_names column)"
    unfolding company_names_def unique_def by (rule sorted_wrt_unique_from)
  then show ?thesis
    by (rule sorted_wrt_mono_rel [rotated])
       (auto simp: company_names_def unique_def set_unique_from intro: first_index_dropna)
qed

lemma result_set_detect:
  "result_set (detect ratio column threshold) =
     sort_values (map (\<lambda>(a, b). \<lparr>name1 = a, name2 = b, similarity = ratio a b\<rparr>)
             (filter (\<lambda>(a, b). threshold \<le> ratio a b) (compared_pairs column)))"
  by (simp add: detect_def Let_def find_duplicates_eq sort_values_def)


lemma set_sort_values: "set (sort_values rows) = set rows"
  by (simp add: sort_values_def)

lemma length_sort_values: "length (sort_values rows) = length rows"
  by (simp add: sort_values_def)


lemma sorted_sort_values: "sorted (map (\<lambda>m. - similarity m) (sort_values rows))"
  by (simp add: sort_values_def)

lemma set_result_set:
  "set (result_set (detect ratio column threshold)) =
     (\<lambda>(a, b). \<lparr>name1 = a, name2 = b, similarity = ratio a b\<rparr>) `
       {p \<in> set (compared_pairs column). threshold \<le> ratio (fst p) (snd p)}"
  by (auto simp: result_set_detect set_sort_values)

lemma length_result_set:
  "length (result_set (detect ratio column threshold)) =
     length (filter (\<lambda>(a, b). threshold \<le> ratio a b) (compared_pairs column))"
  by (simp add: result_set_detect length_sort_values)

lemma length_filter_mono:
  "(\<And>x. x \<in> set xs \<Longrightarrow> P x \<Longrightarrow> Q x) \<Longrightarrow> length (filter P xs) \<le> length (filter Q xs)"
  by (induction xs) auto




lemma sort_values_Nil_iff: "sort_values rows = [] \<longleftrightarrow> rows = []"
  using length_sort_values [of rows] by (metis length_0_conv)

subsection \<open>Ranking\<close>

text \<open>
  The table of a run is ordered by score, largest first. The order of rows with equal
  scores is whatever the library's sorting routine leaves; nothing below depends on it.
\<close>

lemma result_scores_nonincreasing:
  "sorted_wrt (\<lambda>m n. similarity n \<le> similarity m) (result_set (detect ratio column threshold))"
  using sorted_sort_values [of "map (\<lambda>(a, b). \<lparr>name1 = a, name2 = b, similarity = ratio a b\<rparr>)
             (filter (\<lambda>(a, b). threshold \<le> ratio a b) (compared_pairs column))"]
  by (simp add: result_set_detect sorted_map)

subsection \<open>Pair enumeration\<close>



subsection \<open>Threshold filter\<close>

text \<open>
  C2. A row with names \<open>a\<close>, \<open>b\<close> is in the result exactly when \<open>(a, b)\<close> is one of
  the compared pairs and the scorer's value on it is at least the threshold (the
  comparison is inclusive); the row's score is the scorer's value.
\<close>

theorem threshold_filter:
  "(\<forall>a b. (\<exists>m \<in> set (result_set (detect ratio column threshold)). name1 m = a \<and> name2 m = b)
          \<longleftrightarrow> (a, b) \<in> set (compared_pairs column) \<and> threshold \<le> ratio a b)
   \<and> (\<forall>m \<in> set (result_set (detect ratio column threshold)).
          similarity m = ratio (name1 m) (name2 m))"
  by (auto simp: set_result_set)

theorem threshold_filter_witness:
  "score ''ab'' ''ac'' = 50
   \<and> (''ab'', ''ac'') \<in> set (compared_pairs [Some ''ab'', None, Some ''ac'', Some ''ab'', Some ''abc''])
   \<and> (\<exists>m \<in> set (result_set (detect score [Some ''ab'', None, Some ''ac'', Some ''ab'', Some ''abc''] 50)).
         name1 m = ''ab'' \<and> name2 m = ''ac'' \<and> similarity m = 50)
   \<and> \<not> (\<exists>m \<in> set (result_set (detect score [Some ''ab'', None, Some ''ac'', Some ''ab'', Some ''abc''] 51)).
         name1 m = ''ab'' \<and> name2 m = ''ac'')"
proof -
  let ?c = "[Some ''ab'', None, Some ''ac'', Some ''ab'', Some ''abc'']"
  have sc: "score ''ab'' ''ac'' = 50"
    by (simp add: score_def)
  have pair: "(''ab'', ''ac'') \<in> set (compared_pairs ?c)"
    by (simp add: compared_pairs_def company_names_def unique_def)
  have at50: "(\<exists>m \<in> set (result_set (detect score ?c 50)). name1 m = ''ab'' \<and> name2 m = ''ac'')
      \<longleftrightarrow> (''ab'', ''ac'') \<in> set (compared_pairs ?c) \<and> 50 \<le> score ''ab'' ''ac''"
    and sim: "\<forall>m \<in> set (result_set (detect score ?c 50)). similarity m = score (name1 m) (name2 m)"
    using threshold_filter [of score ?c 50] by blast+
  have at51: "(\<exists>m \<in> set (result_set (detect score ?c 51)). name1 m = ''ab'' \<and> name2 m = ''ac'')
      \<longleftrightarrow> (''ab'', ''ac'') \<in> set (compared_pairs ?c) \<and> 51 \<le> score ''ab'' ''ac''"
    using threshold_filter [of score ?c 51] by blast
  from at50 pair sc obtain m where m: "m \<in> set (result_set (detect score ?c 50))"
      "name1 m = ''ab''" "name2 m = ''ac''"
    by auto
  with sim sc have "similarity m = 50" by auto
  with m have "\<exists>m \<in> set (result_set (detect score ?c 50)).
      name1 m = ''ab'' \<and> name2 m = ''ac'' \<and> similarity m = 50" by blast
  moreover from at51 sc
  have "\<not> (\<exists>m \<in> set (result_set (detect score ?c 51)). name1 m = ''ab'' \<and> name2 m = ''ac'')"
    by simp
  ultimately show ?thesis using sc pair by blast
qed

text \<open>
  C4. Raising the threshold never enlarges the result.
\<close>

theorem threshold_monotone:
  "t1 \<le> t2 \<Longrightarrow>
   length (result_set (detect ratio column t2)) \<le> length (result_set (detect ratio column t1))"
  unfolding length_result_set by (rule length_filter_mono) auto

theorem threshold_monotone_witness:
  "(50::real) \<le> 70
   \<and> length (result_set (detect score [Some ''ab'', None, Some ''ac'', Some ''ab'', Some ''abc''] 70))
     \<le> length (result_set (detect score [Some ''ab'', None, Some ''ac'', Some ''ab'', Some ''abc''] 50))"
  using threshold_monotone [of 50 70 score "[Some ''ab'', None, Some ''ac'', Some ''ab'', Some ''abc'']"]
  by simp

subsection \<open>Candidates\<close>

text \<open>
  C5. The candidates are the non-missing cells with equal names collapsed to one, and
  the loop runs over pairs of candidates only. For the column
  \<open>["Acme Inc", "Acme Inc", None, "Acme Co"]\<close> there are two candidates and exactly one
  compared pair, whatever the threshold.
\<close>

theorem dedup_before_scoring:
  "set (company_names column) = {v. Some v \<in> set column}
   \<and> distinct (company_names column)
   \<and> compared_pairs column = combinations2 (company_names column)
   \<and> company_names [Some ''Acme Inc'', Some ''Acme Inc'', None, Some ''Acme Co'']
       = [''Acme Inc'', ''Acme Co'']
   \<and> compared_pairs [Some ''Acme Inc'', Some ''Acme Inc'', None, Some ''Acme Co'']
       = [(''Acme Inc'', ''Acme Co'')]
   \<and> result_set (detect ratio [Some ''Acme Inc'', Some ''Acme Inc'', None, Some ''Acme Co''] 80)
       = (if 80 \<le> ratio ''Acme Inc'' ''Acme Co''
          then [\<lparr>name1 = ''Acme Inc'', name2 = ''Acme Co'',
                  similarity = ratio ''Acme Inc'' ''Acme Co''\<rparr>]
          else [])"
proof (intro conjI)
  show "set (company_names column) = {v. Some v \<in> set column}"
    by (rule set_company_names)
  show "distinct (company_names column)"
    by (rule distinct_company_names)
  show "compared_pairs column = combinations2 (company_names column)"
    by (rule compared_pairs_def)
  show cn: "company_names [Some ''Acme Inc'', Some ''Acme Inc'', None, Some ''Acme Co'']
       = [''Acme Inc'', ''Acme Co'']"
    by (simp add: company_names_def unique_def)
  show cp: "compared_pairs [Some ''Acme Inc'', Some ''Acme Inc'', None, Some ''Acme Co'']
       = [(''Acme Inc'', ''Acme Co'')]"
    by (simp add: compared_pairs_def cn)
  show "result_set (detect ratio [Some ''Acme Inc'', Some ''Acme Inc'', None, Some ''Acme Co''] 80)
       = (if 80 \<le> ratio ''Acme Inc'' ''Acme Co''
          then [\<lparr>name1 = ''Acme Inc'', name2 = ''Acme Co'',
                  similarity = ratio ''Acme Inc'' ''Acme Co''\<rparr>]
          else [])"
    by (simp add: result_set_detect cp sort_values_def)
qed

theorem dedup_before_scoring_witness:
  "set (company_names [Some ''ab'', None, Some ''ac'', Some ''ab'']) = {''ab'', ''ac''}
   \<and> length (compared_pairs [Some ''Acme Inc'', Some ''Acme Inc'', None, Some ''Acme Co'']) = 1"
proof -
  have "{v. Some v \<in> set [Some ''ab'', None, Some ''ac'', Some ''ab'']} = {''ab'', ''ac''}"
    by auto
  then show ?thesis
    using dedup_before_scoring [of "[Some ''ab'', None, Some ''ac'', Some ''ab'']" score]
    by simp
qed

text \<open>
  C10. Deduplication keeps the names in the order of their first occurrences in the
  column, and in every row of the result the first name occurs in the column before the
  second one does. The outcome is a function of the column and the threshold.
\<close>

theorem first_occurrence_order:
  "sorted_wrt (\<lambda>a b. first_index (Some a) column < first_index (Some b) column)
     (company_names column)
   \<and> (\<forall>m \<in> set (result_set (detect ratio column threshold)).
         first_index (Some (name1 m)) column < first_index (Some (name2 m)) column
         \<and> first_index (Some (name2 m)) column < length column)"
proof (intro conjI ballI)
  show "sorted_wrt (\<lambda>a b. first_index (Some a) column < first_index (Some b) column)
     (company_names column)" by (rule sorted_wrt_company_names)
next
  fix m assume "m \<in> set (result_set (detect ratio column threshold))"
  then have p: "(name1 m, name2 m) \<in> set (compared_pairs column)"
    by (auto simp: set_result_set)
  then show "first_index (Some (name1 m)) column < first_index (Some (name2 m)) column"
    unfolding compared_pairs_def
    by (rule sorted_wrt_combinations2 [OF sorted_wrt_company_names])
  from p have "name2 m \<in> set (company_names column)"
    unfolding compared_pairs_def by (auto dest: set_combinations2_subset)
  then have "Some (name2 m) \<in> set column" by (simp add: set_company_names)
  then show "first_index (Some (name2 m)) column < length column"
    by (rule first_index_less_length)
qed

theorem first_occurrence_order_witness:
  "company_names [Some ''ac'', None, Some ''abc'', Some ''ac'', Some ''b''] = [''ac'', ''abc'', ''b'']
   \<and> result_set (detect score [Some ''ac'', None, Some ''abc'', Some ''ac'', Some ''b''] 30)
       = [\<lparr>name1 = ''ac'', name2 = ''abc'', similarity = 200 / 3\<rparr>,
          \<lparr>name1 = ''abc'', name2 = ''b'', similarity = 100 / 3\<rparr>]
   \<and> first_index (Some ''ac'') [Some ''ac'', None, Some ''abc'', Some ''ac'', Some ''b'']
       < first_index (Some ''abc'') [Some ''ac'', None, Some ''abc'', Some ''ac'', Some ''b'']
   \<and> first_index (Some ''abc'') [Some ''ac'', None, Some ''abc'', Some ''ac'', Some ''b'']
       < first_index (Some ''b'') [Some ''ac'', None, Some ''abc'', Some ''ac'', Some ''b'']"
proof -
  let ?c = "[Some ''ac'', None, Some ''abc'', Some ''ac'', Some ''b'']"
  have cn: "company_names ?c = [''ac'', ''abc'', ''b'']"
    by (simp add: company_names_def unique_def)
  have rs: "result_set (detect score ?c 30)
       = [\<lparr>name1 = ''ac'', name2 = ''abc'', similarity = 200 / 3\<rparr>,
          \<lparr>name1 = ''abc'', name2 = ''b'', similarity = 100 / 3\<rparr>]"
    by (simp add: result_set_detect compared_pairs_def cn score_def sort_values_def)
  show ?thesis
    using first_occurrence_order [of ?c score 30] by (simp add: cn rs)
qed

subsection \<open>Statistics\<close>

text \<open>
  C9. Whenever the statistics are computed, the table is not empty, the total is its
  number of rows, the average is the sum of its scores divided by that number, and the
  high-confidence count is the number of rows with a score of at least 95. When no pair
  reaches the threshold the scan takes the branch that reports no duplicates and
  computes no statistics, so nothing is divided by zero.
\<close>

theorem summary_correct:
  "(\<forall>rows s. detect ratio column threshold = Found rows s \<longrightarrow>
       rows \<noteq> [] \<and> total_pairs s = length rows
       \<and> avg_similarity s = Some (sum_list (map similarity rows) / real (length rows))
       \<and> high_confidence s = length (filter (\<lambda>m. 95 \<le> similarity m) rows))
   \<and> (result_set (detect ratio column threshold) = [] \<longrightarrow>
         detect ratio column threshold = NoDuplicates)"
  by (auto simp: detect_def Let_def statistics_def mean_def sort_values_Nil_iff)

theorem summary_correct_witness:
  "detect score [Some ''ac'', None, Some ''abc'', Some ''ac'', Some ''b''] 30
     = Found [\<lparr>name1 = ''ac'', name2 = ''abc'', similarity = 200 / 3\<rparr>,
              \<lparr>name1 = ''abc'', name2 = ''b'', similarity = 100 / 3\<rparr>]
             \<lparr>total_pairs = 2, avg_similarity = Some 50, high_confidence = 0\<rparr>
   \<and> result_set (detect score [Some ''ac'', None, Some ''abc'', Some ''ac'', Some ''b''] 70) = []
   \<and> detect score [Some ''ac'', None, Some ''abc'', Some ''ac'', Some ''b''] 70 = NoDuplicates"
proof -
  let ?c = "[Some ''ac'', None, Some ''abc'', Some ''ac'', Some ''b'']"
  have cp: "compared_pairs ?c = [(''ac'', ''abc''), (''ac'', ''b''), (''abc'', ''b'')]"
    by (simp add: compared_pairs_def company_names_def unique_def)
  have found: "detect score ?c 30
     = Found [\<lparr>name1 = ''ac'', name2 = ''abc'', similarity = 200 / 3\<rparr>,
              \<lparr>name1 = ''abc'', name2 = ''b'', similarity = 100 / 3\<rparr>]
             \<lparr>total_pairs = 2, avg_similarity = Some 50, high_confidence = 0\<rparr>"
    by (simp add: detect_def cp score_def sort_values_def statistics_def mean_def Let_def)
  have none: "result_set (detect score ?c 70) = []"
    by (simp add: result_set_detect cp score_def sort_values_def)
  show ?thesis
    using summary_correct [of score ?c 30] summary_correct [of score ?c 70] found none
    by simp
qed

subsection \<open>Threshold range\<close>

text \<open>
  The threshold of a run is one of the slider's values, so it lies between 50 and 100.
  The script has no other check of the threshold.
\<close>

lemma slider_values_in_range: "t \<in> set slider_values \<Longrightarrow> 50 \<le> t \<and> t \<le> 100"
  by (auto simp: slider_values_def)

subsection \<open>Reference scorer\<close>

text \<open>
  C6. The reference scorer is symmetric: the score of \<open>a\<close> against \<open>b\<close> is the score of
  \<open>b\<close> against \<open>a\<close>.
\<close>

theorem score_symmetric: "score a b = score b a"
  by (simp add: score_def edit_distance_sym max.commute)

text \<open>
  C7. The reference scorer gives 100 to a string against itself, the empty string
  included.
\<close>

theorem score_reflexive: "score a a = 100 \<and> score [] [] = 100"
  by (simp add: score_def edit_distance_refl)

end
